theory Spec2Isabelle
  imports Main
begin

section \<open>JavaScript values\<close>

text \<open>
  The values that flow through \<^verbatim>\<open>lib/user/Login.js\<close> and the NGN base class are
  configuration objects, request payloads, event metadata and strings. They are data:
  \<^verbatim>\<open>undefined\<close>, \<^verbatim>\<open>null\<close>, booleans, numbers, strings and objects whose
  properties are kept in insertion order (the order a \<^verbatim>\<open>for ... in\<close> loop visits
  string keys in). Function values attached by a caller are outside the model. Strings
  are ASCII.
\<close>

datatype jsval =
    Undefined
  | Null
  | Bool bool
  | Num int
  | Str string
  | Obj "(string \<times> jsval) list"

text \<open>
  What a call can throw: a TypeError of the language, the exception with which Node's
  emitter answers an \<^verbatim>\<open>error\<close> event that nothing listens for, and whatever
  exception a listener throws.
\<close>

datatype error = TypeError | UnhandledError | ListenerError

text \<open>A call either returns a value or throws.\<close>

datatype 'a completion = Returned 'a | Thrown error

fun then_do :: "'a completion \<Rightarrow> ('a \<Rightarrow> 'b completion) \<Rightarrow> 'b completion" where
  "then_do (Returned v) f = f v"
| "then_do (Thrown e) f = Thrown e"

text \<open>\<^verbatim>\<open>ToBoolean\<close>: what an \<^verbatim>\<open>if\<close>, \<^verbatim>\<open>!\<close> and \<^verbatim>\<open>||\<close> test.\<close>

fun truthy :: "jsval \<Rightarrow> bool" where
  "truthy Undefined = False"
| "truthy Null = False"
| "truthy (Bool b) = b"
| "truthy (Num n) = (n \<noteq> 0)"
| "truthy (Str s) = (s \<noteq> [])"
| "truthy (Obj ps) = True"

text \<open>\<^verbatim>\<open>a || b\<close> on values (both operands here are free of effects).\<close>

definition or_else :: "jsval \<Rightarrow> jsval \<Rightarrow> jsval" where
  "or_else a b = (if truthy a then a else b)"

text \<open>\<^verbatim>\<open>!a\<close>.\<close>

definition js_not :: "jsval \<Rightarrow> jsval" where
  "js_not a = Bool (\<not> truthy a)"

text \<open>\<^verbatim>\<open>a == null\<close>: true for \<^verbatim>\<open>null\<close> and \<^verbatim>\<open>undefined\<close> only.\<close>

fun loose_eq_null :: "jsval \<Rightarrow> bool" where
  "loose_eq_null Undefined = True"
| "loose_eq_null Null = True"
| "loose_eq_null v = False"

text \<open>
  \<^verbatim>\<open>a == 'email'\<close> for a string literal that is not numeric: a string operand is
  compared as it is; \<^verbatim>\<open>undefined\<close>, \<^verbatim>\<open>null\<close>, booleans and numbers are
  never equal to it, and a data object converts to \<^verbatim>\<open>'[object Object]'\<close>.
\<close>

fun loose_eq_str :: "jsval \<Rightarrow> string \<Rightarrow> bool" where
  "loose_eq_str (Str t) s = (t = s)"
| "loose_eq_str v s = False"

text \<open>
  \<^verbatim>\<open>v.k\<close> for a key that no built-in prototype defines (\<^verbatim>\<open>user\<close>,
  \<^verbatim>\<open>type\<close>, \<^verbatim>\<open>id\<close>, \<^verbatim>\<open>accessToken\<close>, \<^verbatim>\<open>request\<close>,
  \<^verbatim>\<open>emit\<close>): reading a property of \<^verbatim>\<open>undefined\<close> or \<^verbatim>\<open>null\<close>
  throws a TypeError, a missing property reads as \<^verbatim>\<open>undefined\<close>.
\<close>

fun get_member :: "jsval \<Rightarrow> string \<Rightarrow> jsval completion" where
  "get_member Undefined k = Thrown TypeError"
| "get_member Null k = Thrown TypeError"
| "get_member (Obj ps) k = Returned (case map_of ps k of Some v \<Rightarrow> v | None \<Rightarrow> Undefined)"
| "get_member v k = Returned Undefined"

subsection \<open>String methods\<close>

definition is_space :: "char \<Rightarrow> bool" where
  "is_space c = (c \<in> set [CHR '' '', CHR 0x09, CHR 0x0A, CHR 0x0B, CHR 0x0C, CHR 0x0D])"

definition trim :: "string \<Rightarrow> string" where
  "trim s = rev (dropWhile is_space (rev (dropWhile is_space s)))"

definition lower_char :: "char \<Rightarrow> char" where
  "lower_char c =
     (case map_of (zip ''ABCDEFGHIJKLMNOPQRSTUVWXYZ'' ''abcdefghijklmnopqrstuvwxyz'') c of
        Some d \<Rightarrow> d
      | None \<Rightarrow> c)"

definition toLowerCase :: "string \<Rightarrow> string" where
  "toLowerCase s = map lower_char s"

text \<open>
  \<^verbatim>\<open>v.trim()\<close> and \<^verbatim>\<open>v.toLowerCase()\<close> on a value: only a string has these
  methods; on anything else the call throws a TypeError (the property is
  \<^verbatim>\<open>undefined\<close>, or the base is).
\<close>

fun js_trim :: "jsval \<Rightarrow> jsval completion" where
  "js_trim (Str s) = Returned (Str (trim s))"
| "js_trim v = Thrown TypeError"

fun js_toLowerCase :: "jsval \<Rightarrow> jsval completion" where
  "js_toLowerCase (Str s) = Returned (Str (toLowerCase s))"
| "js_toLowerCase v = Thrown TypeError"

section \<open>The event channel and the process\<close>

text \<open>
  A listener is a function. The model names the two kinds the base class registers: a
  method of the instance, by its property name, and the no-op \<^verbatim>\<open>NGN.emptyFn\<close>.
\<close>

datatype callback = Method string | EmptyFn

text \<open>
  Node's \<^verbatim>\<open>events.EventEmitter\<close>, which the base class requires, is a library
  of the platform and not part of the sources. The model keeps what the base class
  uses of it: the registrations in registration order, the listener capacity, and
  \<^verbatim>\<open>emit\<close>, which calls the listeners registered for the event name in
  registration order, lets the exception of a listener propagate, and throws for the
  event \<^verbatim>\<open>error\<close> when no listener is registered for it.
\<close>

record EventEmitter =
  listeners :: "(string \<times> callback) list"
  maxListeners :: nat

definition new_EventEmitter :: EventEmitter where
  "new_EventEmitter = \<lparr>listeners = [], maxListeners = 10\<rparr>"

definition emitter_setMaxListeners :: "EventEmitter \<Rightarrow> nat \<Rightarrow> EventEmitter" where
  "emitter_setMaxListeners em n = em\<lparr>maxListeners := n\<rparr>"

definition emitter_on :: "EventEmitter \<Rightarrow> string \<Rightarrow> callback \<Rightarrow> EventEmitter" where
  "emitter_on em name cb = em\<lparr>listeners := listeners em @ [(name, cb)]\<rparr>"

text \<open>
  What can be observed of a run, in the order it happens: a constructor is entered with
  its argument, an event emitter is created, a class installs its own properties,
  \<^verbatim>\<open>emit\<close> is called on an instance's channel with an event name and a payload,
  a listener is invoked with the payload, and an event is sent to the process-wide
  monitor.
\<close>

datatype effect =
    Construct string jsval
  | NewEmitter
  | DefineProperties string
  | Emit string jsval
  | Invoke callback jsval
  | Send string jsval

text \<open>
  The process: whether \<^verbatim>\<open>process\<close> has a \<^verbatim>\<open>mechanic\<close> property of its own
  (the monitor), and what has happened so far.
\<close>

record world =
  mechanic :: bool
  history :: "effect list"

definition record_effects :: "effect list \<Rightarrow> world \<Rightarrow> world" where
  "record_effects es w = w\<lparr>history := history w @ es\<rparr>"

text \<open>The listeners registered for an event name, in registration order.\<close>

definition listeners_of :: "EventEmitter \<Rightarrow> string \<Rightarrow> callback list" where
  "listeners_of em name = map snd (filter (\<lambda>(n, cb). n = name) (listeners em))"

text \<open>
  The listeners are functions from outside the emitter; whether one throws when it is
  called is the parameter \<open>throws\<close>. The emitter calls them one after the other
  and stops at the first that throws.
\<close>

fun run_listeners ::
  "(callback \<Rightarrow> bool) \<Rightarrow> callback list \<Rightarrow> jsval \<Rightarrow> unit completion \<times> effect list" where
  "run_listeners throws [] payload = (Returned (), [])"
| "run_listeners throws (cb # cbs) payload =
     (if throws cb then (Thrown ListenerError, [Invoke cb payload])
      else (case run_listeners throws cbs payload of
              (c, es) \<Rightarrow> (c, Invoke cb payload # es)))"

definition emitter_emit ::
  "(callback \<Rightarrow> bool) \<Rightarrow> EventEmitter \<Rightarrow> string \<Rightarrow> jsval \<Rightarrow> world
     \<Rightarrow> unit completion \<times> world" where
  "emitter_emit throws em name payload w =
     (if name = ''error'' \<and> listeners_of em name = [] then
        (Thrown UnhandledError, record_effects [Emit name payload] w)
      else
        (case run_listeners throws (listeners_of em name) payload of
           (c, es) \<Rightarrow> (c, record_effects (Emit name payload # es) w)))"

section \<open>The base class (NGNClass)\<close>

text \<open>
  An instance of the base class owns its emitter (\<^verbatim>\<open>_emitter\<close>). \<open>methods\<close> lists
  the names of the function-valued members the instance can reach, its own and
  those of its prototype chain: \<^verbatim>\<open>this[name]\<close> is that method when the name is
  listed and \<^verbatim>\<open>undefined\<close> otherwise.
\<close>

record NGNobject =
  emitter :: EventEmitter
  methods :: "string list"

definition NGNClass_prototype :: "string list" where
  "NGNClass_prototype =
     [''constructor'', ''once'', ''setMaxListeners'', ''removeAllListeners'', ''emit'',
      ''fireEvent'', ''fireWarning'', ''fireError'', ''on'', ''addEventListeners'',
      ''onError'']"

text \<open>
  A property descriptor as \<^verbatim>\<open>Object.defineProperties\<close> reads it: which of the
  fields \<^verbatim>\<open>value\<close>, \<^verbatim>\<open>writable\<close>, \<^verbatim>\<open>get\<close> and \<^verbatim>\<open>set\<close> the
  descriptor object has. A descriptor that has an accessor (\<^verbatim>\<open>get\<close> or
  \<^verbatim>\<open>set\<close>) and also \<^verbatim>\<open>value\<close> or \<^verbatim>\<open>writable\<close> is invalid.
  \<^verbatim>\<open>Object.defineProperties\<close> converts every descriptor of the table before it
  defines the first property, and throws a TypeError at an invalid one.
\<close>

record descriptor =
  has_value :: bool
  has_writable :: bool
  has_get :: bool
  has_set :: bool

definition invalid_descriptor :: "descriptor \<Rightarrow> bool" where
  "invalid_descriptor d = ((has_get d \<or> has_set d) \<and> (has_value d \<or> has_writable d))"

definition defineProperties_throws :: "(string \<times> descriptor) list \<Rightarrow> bool" where
  "defineProperties_throws table = list_ex (\<lambda>(name, d). invalid_descriptor d) table"

definition data_descriptor :: descriptor where
  "data_descriptor = \<lparr>has_value = True, has_writable = True, has_get = False, has_set = False\<rparr>"

definition NGNClass_descriptors :: "(string \<times> descriptor) list" where
  "NGNClass_descriptors = [(''_emitter'', data_descriptor)]"

text \<open>
  Modelled from the spec: the root \<^verbatim>\<open>Class\<close> (\<^verbatim>\<open>require('./Class')\<close>) and its
  \<^verbatim>\<open>extend\<close> are not part of the sources. By the spec's extension protocol a derived
  type shares the base type's capabilities and \<^verbatim>\<open>X.super.constructor\<close> is the base
  type's constructor; the root constructor is entered with the argument it is given and
  does nothing else that the claims observe.
\<close>

definition Class_constructor :: "jsval \<Rightarrow> world \<Rightarrow> world" where
  "Class_constructor config w = record_effects [Construct ''Class'' config] w"

text \<open>
  \<^verbatim>\<open>constructor: function(config)\<close> of the base class. \<open>proto\<close> is the method
  list of the type being instantiated.
\<close>

definition NGNClass_constructor ::
  "string list \<Rightarrow> jsval \<Rightarrow> world \<Rightarrow> NGNobject completion \<times> world" where
  "NGNClass_constructor proto cfg w =
     (let w0 = record_effects [Construct ''NGNClass'' cfg] w;
          config = or_else cfg (Obj []);
          w1 = Class_constructor config w0;
          w2 = record_effects [NewEmitter, DefineProperties ''NGNClass''] w1
      in if defineProperties_throws NGNClass_descriptors then (Thrown TypeError, w2)
         else (Returned \<lparr>emitter = emitter_setMaxListeners new_EventEmitter 25,
                          methods = proto\<rparr>, w2))"

text \<open>
  \<^verbatim>\<open>emit(eventName, metadata)\<close>: calls the emitter's \<^verbatim>\<open>emit\<close> with
  \<^verbatim>\<open>metadata || null\<close>; what that call throws leaves this method too.
\<close>

definition NGNClass_emit ::
  "(callback \<Rightarrow> bool) \<Rightarrow> 'a NGNobject_scheme \<Rightarrow> string \<Rightarrow> jsval \<Rightarrow> world
     \<Rightarrow> unit completion \<times> world" where
  "NGNClass_emit throws this eventName metadata w =
     emitter_emit throws (emitter this) eventName (or_else metadata Null) w"

text \<open>
  \<^verbatim>\<open>fireEvent(eventName, metadata)\<close>: the statement after \<^verbatim>\<open>this.emit\<close> runs
  only when that call returns. Modelled from the spec: the monitor
  \<^verbatim>\<open>process.mechanic\<close> is not part of the sources; its \<^verbatim>\<open>send\<close> receives the
  event.
\<close>

definition NGNClass_fireEvent ::
  "(callback \<Rightarrow> bool) \<Rightarrow> 'a NGNobject_scheme \<Rightarrow> string \<Rightarrow> jsval \<Rightarrow> world
     \<Rightarrow> unit completion \<times> world" where
  "NGNClass_fireEvent throws this eventName metadata w =
     (case NGNClass_emit throws this eventName metadata w of
        (Thrown e, w1) \<Rightarrow> (Thrown e, w1)
      | (Returned u, w1) \<Rightarrow>
          (Returned (),
           if mechanic w1 then record_effects [Send eventName metadata] w1 else w1))"

text \<open>\<^verbatim>\<open>this[name]\<close> for a member name: the method, or \<^verbatim>\<open>undefined\<close>.\<close>

definition lookup_member :: "'a NGNobject_scheme \<Rightarrow> string \<Rightarrow> callback option" where
  "lookup_member this name = (if name \<in> set (methods this) then Some (Method name) else None)"

text \<open>
  \<^verbatim>\<open>on(eventName, callback)\<close>: registers \<^verbatim>\<open>callback || NGN.emptyFn\<close>. Modelled
  from the spec: \<^verbatim>\<open>NGN.emptyFn\<close> is not part of the sources; it is the no-op handler
  the spec's channel installs when a handler is absent.
\<close>

definition NGNClass_on ::
  "'a NGNobject_scheme \<Rightarrow> string \<Rightarrow> callback option \<Rightarrow> 'a NGNobject_scheme" where
  "NGNClass_on this eventName cb =
     this\<lparr>emitter := emitter_on (emitter this) eventName
                        (case cb of Some f \<Rightarrow> f | None \<Rightarrow> EmptyFn)\<rparr>"

text \<open>
  \<^verbatim>\<open>addEventListeners(evt)\<close>: the loop over the array of event names, first to
  last.
\<close>

fun NGNClass_addEventListeners ::
  "'a NGNobject_scheme \<Rightarrow> string list \<Rightarrow> 'a NGNobject_scheme" where
  "NGNClass_addEventListeners this [] = this"
| "NGNClass_addEventListeners this (e # evt) =
     NGNClass_addEventListeners
       (NGNClass_on this (toLowerCase (trim e)) (lookup_member this (''on'' @ trim e))) evt"

section \<open>The login (Login)\<close>

text \<open>
  The table that the constructor passes to \<^verbatim>\<open>Object.defineProperties\<close>, in source
  order, with the fields each descriptor object has. \<^verbatim>\<open>accesstoken\<close>,
  \<^verbatim>\<open>oauthprovider\<close> and \<^verbatim>\<open>oauth\<close> carry \<^verbatim>\<open>value: null\<close> next to their
  \<^verbatim>\<open>get\<close>.
\<close>

definition Login_descriptors :: "(string \<times> descriptor) list" where
  "Login_descriptors =
     [(''_request'', \<lparr>has_value = True, has_writable = True, has_get = False, has_set = False\<rparr>),
      (''_data'', \<lparr>has_value = True, has_writable = True, has_get = False, has_set = False\<rparr>),
      (''_id'', \<lparr>has_value = True, has_writable = True, has_get = False, has_set = False\<rparr>),
      (''ID'', \<lparr>has_value = False, has_writable = False, has_get = True, has_set = False\<rparr>),
      (''_accesstoken'', \<lparr>has_value = True, has_writable = True, has_get = False, has_set = False\<rparr>),
      (''accesstoken'', \<lparr>has_value = True, has_writable = False, has_get = True, has_set = True\<rparr>),
      (''oauthprovider'', \<lparr>has_value = True, has_writable = False, has_get = True, has_set = False\<rparr>),
      (''oauth'', \<lparr>has_value = True, has_writable = False, has_get = True, has_set = False\<rparr>),
      (''_modified'', \<lparr>has_value = True, has_writable = True, has_get = False, has_set = False\<rparr>),
      (''modified'', \<lparr>has_value = False, has_writable = False, has_get = True, has_set = True\<rparr>)]"

text \<open>
  An object that carries the properties of that table: the data properties
  \<^verbatim>\<open>_request\<close>, \<^verbatim>\<open>_data\<close>, \<^verbatim>\<open>_id\<close>, \<^verbatim>\<open>_accesstoken\<close> and
  \<^verbatim>\<open>_modified\<close> as fields, the accessors as the functions below. \<open>expando\<close> holds
  the own data properties that the table does not declare and that a plain assignment
  creates (\<^verbatim>\<open>_accessToken\<close>, or a \<^verbatim>\<open>request\<close> attached by a caller);
  \<open>oauthprovider_closure\<close> is the request captured by the function stored in
  \<^verbatim>\<open>_oauthprovider\<close>, once \<^verbatim>\<open>processHttpRequest\<close> has stored it.
\<close>

record Login = NGNobject +
  p_request :: jsval
  p_data :: jsval
  p_id :: jsval
  p_accesstoken :: jsval
  p_modified :: jsval
  expando :: "string \<rightharpoonup> jsval"
  oauthprovider_closure :: "jsval option"

definition Login_prototype :: "string list" where
  "Login_prototype = NGNClass_prototype @ [''processHttpRequest'', ''authenticate'']"

text \<open>
  \<^verbatim>\<open>this.name\<close> for a name that neither the table nor a prototype declares
  (\<^verbatim>\<open>request\<close>, \<^verbatim>\<open>bus\<close>, \<^verbatim>\<open>_accessToken\<close>).
\<close>

definition own_get :: "Login \<Rightarrow> string \<Rightarrow> jsval" where
  "own_get this name = (case expando this name of Some v \<Rightarrow> v | None \<Rightarrow> Undefined)"

text \<open>The values the table gives the data properties, for the defaulted \<open>config\<close>.\<close>

definition Login_properties :: "jsval \<Rightarrow> NGNobject \<Rightarrow> Login" where
  "Login_properties request base =
     \<lparr>emitter = emitter base, methods = methods base,
      p_request = or_else request (Obj []),
      p_data = Null, p_id = Null, p_accesstoken = Null, p_modified = Bool False,
      expando = Map.empty, oauthprovider_closure = None\<rparr>"

text \<open>
  \<^verbatim>\<open>constructor: function(config)\<close>: the base constructor with the same argument,
  then \<^verbatim>\<open>config = config || {}\<close>, then the table is built (\<^verbatim>\<open>config.request\<close> is
  read) and handed to \<^verbatim>\<open>Object.defineProperties\<close>.
\<close>

definition Login_constructor :: "jsval \<Rightarrow> world \<Rightarrow> Login completion \<times> world" where
  "Login_constructor cfg w =
     (case NGNClass_constructor Login_prototype cfg (record_effects [Construct ''Login'' cfg] w) of
        (Thrown e, w1) \<Rightarrow> (Thrown e, w1)
      | (Returned base, w1) \<Rightarrow>
          (case get_member (or_else cfg (Obj [])) ''request'' of
             Thrown e \<Rightarrow> (Thrown e, w1)
           | Returned request \<Rightarrow>
               (let w2 = record_effects [DefineProperties ''Login''] w1
                in if defineProperties_throws Login_descriptors then (Thrown TypeError, w2)
                   else (Returned (Login_properties request base), w2))))"

subsection \<open>Chains of derived types\<close>

text \<open>
  A derived type, written the way the sources write one (the constructor of Login, and
  the \<^verbatim>\<open>Person\<close> example in the documentation of the base class): its constructor
  first calls \<^verbatim>\<open>X.super.constructor.call(this, config)\<close> with its own argument and
  then hands its own table to \<^verbatim>\<open>Object.defineProperties\<close>. It is given by its name
  and its table. A chain lists the derived types above NGNClass, the leaf first; the
  empty chain is NGNClass itself. The result is how the construction completes and the
  process afterwards.
\<close>

type_synonym derived_type = "string \<times> (string \<times> descriptor) list"

fun chain_constructor ::
  "string list \<Rightarrow> derived_type list \<Rightarrow> jsval \<Rightarrow> world \<Rightarrow> unit completion \<times> world" where
  "chain_constructor proto [] cfg w =
     (case NGNClass_constructor proto cfg w of
        (Thrown e, w1) \<Rightarrow> (Thrown e, w1)
      | (Returned base, w1) \<Rightarrow> (Returned (), w1))"
| "chain_constructor proto ((name, table) # bases) cfg w =
     (case chain_constructor proto bases cfg (record_effects [Construct name cfg] w) of
        (Thrown e, w1) \<Rightarrow> (Thrown e, w1)
      | (Returned u, w1) \<Rightarrow>
          (let w2 = record_effects [DefineProperties name] w1
           in if defineProperties_throws table then (Thrown TypeError, w2)
              else (Returned (), w2)))"

text \<open>
  For the statement about chains: the derived types of a chain whose own property
  setup is reached, from the base to the leaf. A type's setup is reached when no type
  below it has an invalid table.
\<close>

fun own_setups :: "derived_type list \<Rightarrow> string list" where
  "own_setups [] = []"
| "own_setups ((name, table) # bases) =
     (if list_ex (\<lambda>(n, t). defineProperties_throws t) bases then own_setups bases
      else own_setups bases @ [name])"

subsection \<open>Accessors\<close>

text \<open>\<^verbatim>\<open>ID\<close>: a getter and no setter; an assignment to it is ignored (the module is
  not in strict mode).\<close>

definition ID_get :: "Login \<Rightarrow> jsval" where
  "ID_get this = p_id this"

definition ID_assign :: "Login \<Rightarrow> jsval \<Rightarrow> Login" where
  "ID_assign this v = this"

text \<open>\<^verbatim>\<open>oauthprovider\<close>: \<^verbatim>\<open>return this.request.user.type.trim().toLowerCase()\<close>.\<close>

definition oauthprovider_get :: "Login \<Rightarrow> jsval completion" where
  "oauthprovider_get this =
     then_do (get_member (own_get this ''request'') ''user'') (\<lambda>user.
     then_do (get_member user ''type'') (\<lambda>type.
     then_do (js_trim type) js_toLowerCase))"

text \<open>\<^verbatim>\<open>oauth\<close>: the \<^verbatim>\<open>switch\<close> over \<^verbatim>\<open>this.oauthprovider\<close>; a \<^verbatim>\<open>case\<close>
  label matches by strict equality.\<close>

definition oauth_get :: "Login \<Rightarrow> jsval completion" where
  "oauth_get this =
     then_do (oauthprovider_get this) (\<lambda>p.
       Returned
         (if p = Str ''github'' then Str ''gh''
          else if p = Str ''facebook'' then Str ''fb''
          else if p = Str ''linkedin'' then Str ''li''
          else if p = Str ''twitter'' then Str ''tw''
          else if p = Str ''google'' then Str ''gg''
          else if p = Str ''openid'' then Str ''oi''
          else if p = Str ''yahoo'' then Str ''yh''
          else if p = Str ''dropbox'' then Str ''db''
          else if p = Str ''email'' then Str ''eml''
          else Null))"

text \<open>
  \<^verbatim>\<open>this.bus.emit(name, payload)\<close>: \<^verbatim>\<open>bus\<close> is declared nowhere, so it is an
  undeclared own property; whatever data it holds, its \<^verbatim>\<open>emit\<close> is not a function
  and the call throws a TypeError before anything is published.
\<close>

definition bus_emit :: "Login \<Rightarrow> string \<Rightarrow> jsval \<Rightarrow> world \<Rightarrow> unit completion \<times> world" where
  "bus_emit this name payload w =
     (case get_member (own_get this ''bus'') ''emit'' of
        Thrown e \<Rightarrow> (Thrown e, w)
      | Returned f \<Rightarrow> (Thrown TypeError, w))"

definition InvalidAttribute :: jsval where
  "InvalidAttribute =
     Obj [(''type'', Str ''InvalidAttribute''),
          (''message'', Str ''The attribute does not exist.''),
          (''detail'', Str ''The ID attribute is only available after a get() or authenticate() or some other lookup method.'')]"

text \<open>
  The getter of \<^verbatim>\<open>accesstoken\<close>. Its first test is \<^verbatim>\<open>!this.oauthprovider == null\<close>,
  the negation compared with \<^verbatim>\<open>null\<close>; each test reads \<^verbatim>\<open>this.oauthprovider\<close>
  anew. A function that ends without \<^verbatim>\<open>return\<close> yields \<^verbatim>\<open>undefined\<close>.
\<close>

definition accesstoken_get :: "Login \<Rightarrow> world \<Rightarrow> jsval completion \<times> world" where
  "accesstoken_get this w =
     (case oauthprovider_get this of
        Thrown e \<Rightarrow> (Thrown e, w)
      | Returned p1 \<Rightarrow>
          if loose_eq_null (js_not p1) then
            (case bus_emit this ''error'' InvalidAttribute w of
               (Thrown e, w1) \<Rightarrow> (Thrown e, w1)
             | (Returned u, w1) \<Rightarrow> (Returned Undefined, w1))
          else
            (case oauthprovider_get this of
               Thrown e \<Rightarrow> (Thrown e, w)
             | Returned p2 \<Rightarrow>
                 if loose_eq_str p2 ''email'' then
                   (case bus_emit this ''warning''
                           (Str ''Access Tokens are only available for OAuth and OAuth 2 logins.'') w of
                      (Thrown e, w1) \<Rightarrow> (Thrown e, w1)
                    | (Returned u, w1) \<Rightarrow> (Returned Null, w1))
                 else (Returned (or_else (own_get this ''_accessToken'') Null), w)))"

text \<open>The setter of \<^verbatim>\<open>accesstoken\<close>: the comparison guards an empty block; the
  assignment creates or overwrites the own property \<^verbatim>\<open>_accessToken\<close>.\<close>

definition accesstoken_set :: "Login \<Rightarrow> jsval \<Rightarrow> Login" where
  "accesstoken_set this v = this\<lparr>expando := (expando this)(''_accessToken'' \<mapsto> v)\<rparr>"

definition InvalidSet :: jsval where
  "InvalidSet =
     Obj [(''type'', Str ''InvalidSet''),
          (''message'', Str ''This attribute cannot be set.''),
          (''detail'', Str ''The modified attribute cannot be set directly.'')]"

definition modified_get :: "Login \<Rightarrow> jsval" where
  "modified_get this = p_modified this"

text \<open>
  The setter of \<^verbatim>\<open>modified\<close> takes no parameter and calls the inherited
  \<^verbatim>\<open>emit\<close>; it completes as that call does. The result is the completion, the
  instance and the process afterwards.
\<close>

definition modified_set ::
  "(callback \<Rightarrow> bool) \<Rightarrow> Login \<Rightarrow> jsval \<Rightarrow> world
     \<Rightarrow> unit completion \<times> Login \<times> world" where
  "modified_set throws this v w =
     (case NGNClass_emit throws this ''error'' InvalidSet w of (c, w1) \<Rightarrow> (c, this, w1))"

text \<open>
  \<^verbatim>\<open>_modified\<close> is a data property with \<^verbatim>\<open>writable: true\<close>: an assignment to
  it, from any code that holds the instance, stores the value.
\<close>

definition p_modified_assign :: "Login \<Rightarrow> jsval \<Rightarrow> Login" where
  "p_modified_assign this v = this\<lparr>p_modified := v\<rparr>"

subsection \<open>Methods\<close>

text \<open>
  \<^verbatim>\<open>processHttpRequest(req)\<close>. Every read of \<^verbatim>\<open>req.user\<close> that can throw comes
  before the first assignment.
\<close>

definition Login_processHttpRequest :: "Login \<Rightarrow> jsval \<Rightarrow> Login completion" where
  "Login_processHttpRequest this req =
     then_do (get_member req ''user'') (\<lambda>user.
     then_do (get_member user ''id'') (\<lambda>uid.
     then_do (get_member user ''accessToken'') (\<lambda>token.
       Returned ((ID_assign this uid)
                   \<lparr>p_data := user, p_accesstoken := token,
                    oauthprovider_closure := Some req\<rparr>))))"

text \<open>
  The function stored in \<^verbatim>\<open>_oauthprovider\<close>, when called: the first key that
  \<^verbatim>\<open>for (var obj in req.user)\<close> visits, trimmed and lowercased; \<^verbatim>\<open>undefined\<close>
  when there is none. Nothing in the sources calls it.
\<close>

definition oauthprovider_closure_call :: "jsval \<Rightarrow> jsval completion" where
  "oauthprovider_closure_call req =
     then_do (get_member req ''user'') (\<lambda>user.
       Returned (case user of
                   Obj ((k, v) # ps) \<Rightarrow> Str (toLowerCase (trim k))
                 | Str (c # cs) \<Rightarrow> Str ''0''
                 | _ \<Rightarrow> Undefined))"

text \<open>
  \<^verbatim>\<open>authenticate(req)\<close>: \<^verbatim>\<open>req = req || this._request || null\<close>, then the guard
  \<^verbatim>\<open>req == null\<close>. The result is the completion, the instance and the process
  afterwards.
\<close>

definition Login_authenticate ::
  "Login \<Rightarrow> jsval \<Rightarrow> world \<Rightarrow> jsval completion \<times> Login \<times> world" where
  "Login_authenticate this req w =
     (let req1 = or_else (or_else req (p_request this)) Null
      in if loose_eq_null req1 then
           (case bus_emit this ''error'' (Str ''No request stream available.'') w of
              (Thrown e, w1) \<Rightarrow> (Thrown e, this, w1)
            | (Returned u, w1) \<Rightarrow> (Returned Undefined, this, w1))
         else (Returned Undefined, this, w))"

section \<open>The provider codes as the specification lists them\<close>

text \<open>
  The specification's closed table: github, facebook, linkedin, twitter, google,
  openid, yahoo, dropbox and email with their codes; every other value, an unset one
  included, has no code.
\<close>

definition provider_codes :: "(string \<times> string) list" where
  "provider_codes =
     [(''github'', ''gh''), (''facebook'', ''fb''), (''linkedin'', ''li''),
      (''twitter'', ''tw''), (''google'', ''gg''), (''openid'', ''oi''),
      (''yahoo'', ''yh''), (''dropbox'', ''db''), (''email'', ''eml'')]"

definition provider_code :: "jsval \<Rightarrow> jsval" where
  "provider_code p =
     (case p of
        Str s \<Rightarrow> (case map_of provider_codes s of Some c \<Rightarrow> Str c | None \<Rightarrow> Null)
      | _ \<Rightarrow> Null)"

section \<open>Auxiliary facts\<close>

lemma get_member_or_else_Obj:
  "\<exists>v. get_member (or_else cfg (Obj [])) k = Returned v"
  by (cases cfg) (auto simp: or_else_def)

lemma Login_descriptors_invalid: "defineProperties_throws Login_descriptors"
  by (simp add: defineProperties_throws_def Login_descriptors_def invalid_descriptor_def)

lemma NGNClass_descriptors_valid: "\<not> defineProperties_throws NGNClass_descriptors"
  by (simp add: defineProperties_throws_def NGNClass_descriptors_def invalid_descriptor_def
      data_descriptor_def)

lemma NGNClass_constructor_eq:
  "NGNClass_constructor proto cfg w =
     (Returned \<lparr>emitter = \<lparr>listeners = [], maxListeners = 25\<rparr>, methods = proto\<rparr>,
      w\<lparr>history := history w @
            [Construct ''NGNClass'' cfg, Construct ''Class'' (or_else cfg (Obj [])),
             NewEmitter, DefineProperties ''NGNClass'']\<rparr>)"
  by (simp add: NGNClass_constructor_def NGNClass_descriptors_valid Class_constructor_def
      record_effects_def new_EventEmitter_def emitter_setMaxListeners_def Let_def)

lemma Login_constructor_eq:
  "Login_constructor cfg w =
     (Thrown TypeError,
      w\<lparr>history := history w @
            [Construct ''Login'' cfg, Construct ''NGNClass'' cfg,
             Construct ''Class'' (or_else cfg (Obj [])),
             NewEmitter, DefineProperties ''NGNClass'', DefineProperties ''Login'']\<rparr>)"
proof -
  obtain r where r: "get_member (or_else cfg (Obj [])) ''request'' = Returned r"
    using get_member_or_else_Obj by blast
  show ?thesis
    by (simp add: Login_constructor_def NGNClass_constructor_eq r Login_descriptors_invalid
        record_effects_def Let_def)
qed

lemma oauthprovider_no_request:
  "expando this ''request'' = None \<Longrightarrow> oauthprovider_get this = Thrown TypeError"
  by (simp add: oauthprovider_get_def own_get_def)

lemma expando_Login_properties: "expando (Login_properties r base) = Map.empty"
  by (simp add: Login_properties_def)

lemma bus_emit_throws: "bus_emit this name payload w = (Thrown TypeError, w)"
  by (cases "own_get this ''bus''") (simp_all add: bus_emit_def)

lemma js_not_never_null: "\<not> loose_eq_null (js_not p)"
  by (simp add: js_not_def)

lemma accesstoken_get_email:
  assumes "oauthprovider_get this = Returned (Str ''email'')"
  shows "accesstoken_get this w = (Thrown TypeError, w)"
  using assms by (simp add: accesstoken_get_def js_not_never_null bus_emit_throws)

lemma accesstoken_get_other:
  assumes "oauthprovider_get this = Returned (Str p)" and "p \<noteq> ''email''"
  shows "accesstoken_get this w = (Returned (or_else (own_get this ''_accessToken'') Null), w)"
  using assms by (simp add: accesstoken_get_def js_not_never_null)

lemma oauthprovider_get_accesstoken_set:
  "oauthprovider_get (accesstoken_set this v) = oauthprovider_get this"
  by (simp add: oauthprovider_get_def accesstoken_set_def own_get_def)

lemma methods_on: "methods (NGNClass_on this n cb) = methods this"
  by (simp add: NGNClass_on_def)

lemma listeners_on:
  "listeners (emitter (NGNClass_on this n cb))
     = listeners (emitter this) @ [(n, case cb of Some f \<Rightarrow> f | None \<Rightarrow> EmptyFn)]"
  by (simp add: NGNClass_on_def emitter_on_def)

lemma trim_lower_GitHub: "toLowerCase (trim '' GitHub  '') = ''github''"
  by (simp add: toLowerCase_def trim_def is_space_def lower_char_def)

lemma run_listeners_fst:
  "fst (run_listeners throws cbs payload)
     = (if list_ex throws cbs then Thrown ListenerError else Returned ())"
  by (induction cbs) (auto split: prod.splits)

lemma run_listeners_snd:
  "snd (run_listeners throws cbs payload)
     = map (\<lambda>cb. Invoke cb payload)
         (takeWhile (\<lambda>cb. \<not> throws cb) cbs @ take 1 (dropWhile (\<lambda>cb. \<not> throws cb) cbs))"
  by (induction cbs) (auto split: prod.splits)

lemma emitter_emit_fst:
  "fst (emitter_emit throws em name payload w)
     = (if name = ''error'' \<and> listeners_of em name = [] then Thrown UnhandledError
        else if list_ex throws (listeners_of em name) then Thrown ListenerError
        else Returned ())"
proof (cases "name = ''error'' \<and> listeners_of em name = []")
  case True
  then have n: "name = ''error''" and l: "listeners_of em ''error'' = []" by auto
  show ?thesis by (simp add: emitter_emit_def n l)
next
  case False
  obtain c es where r: "run_listeners throws (listeners_of em name) payload = (c, es)"
    by (cases "run_listeners throws (listeners_of em name) payload")
  with run_listeners_fst [of throws "listeners_of em name" payload]
  have "c = (if list_ex throws (listeners_of em name) then Thrown ListenerError else Returned ())"
    by simp
  with r False show ?thesis by (auto simp: emitter_emit_def)
qed

lemma emitter_emit_snd:
  "snd (emitter_emit throws em name payload w)
     = w\<lparr>history := history w @ Emit name payload
            # map (\<lambda>cb. Invoke cb payload)
                (takeWhile (\<lambda>cb. \<not> throws cb) (listeners_of em name)
                 @ take 1 (dropWhile (\<lambda>cb. \<not> throws cb) (listeners_of em name)))\<rparr>"
proof (cases "name = ''error'' \<and> listeners_of em name = []")
  case True
  then have n: "name = ''error''" and l: "listeners_of em ''error'' = []" by auto
  show ?thesis by (simp add: emitter_emit_def record_effects_def n l)
next
  case False
  obtain c es where r: "run_listeners throws (listeners_of em name) payload = (c, es)"
    by (cases "run_listeners throws (listeners_of em name) payload")
  with run_listeners_snd [of throws "listeners_of em name" payload]
  have "es = map (\<lambda>cb. Invoke cb payload)
                (takeWhile (\<lambda>cb. \<not> throws cb) (listeners_of em name)
                 @ take 1 (dropWhile (\<lambda>cb. \<not> throws cb) (listeners_of em name)))"
    by simp
  with r False show ?thesis by (auto simp: emitter_emit_def record_effects_def)
qed

lemma chain_constructor_fst:
  "fst (chain_constructor proto chain cfg w)
     = (if list_ex (\<lambda>(n, t). defineProperties_throws t) chain then Thrown TypeError
        else Returned ())"
proof (induction chain arbitrary: w)
  case Nil
  show ?case by (simp add: NGNClass_constructor_eq)
next
  case (Cons d chain)
  obtain name table where d: "d = (name, table)" by (cases d)
  obtain c w1 where r: "chain_constructor proto chain cfg (record_effects [Construct name cfg] w) = (c, w1)"
    by (cases "chain_constructor proto chain cfg (record_effects [Construct name cfg] w)")
  with Cons.IH [of "record_effects [Construct name cfg] w"]
  have c: "c = (if list_ex (\<lambda>(n, t). defineProperties_throws t) chain then Thrown TypeError
        else Returned ())"
    by simp
  show ?case
    by (simp add: d r c Let_def)
qed

lemma chain_constructor_history:
  "history (snd (chain_constructor proto chain cfg w))
     = history w @ map (\<lambda>(n, t). Construct n cfg) chain
       @ [Construct ''NGNClass'' cfg, Construct ''Class'' (if truthy cfg then cfg else Obj []),
          NewEmitter, DefineProperties ''NGNClass'']
       @ map DefineProperties (own_setups chain)"
proof (induction chain arbitrary: w)
  case Nil
  show ?case by (simp add: NGNClass_constructor_eq or_else_def)
next
  case (Cons d chain)
  obtain name table where d: "d = (name, table)" by (cases d)
  let ?w = "record_effects [Construct name cfg] w"
  have f: "fst (chain_constructor proto chain cfg ?w)
     = (if list_ex (\<lambda>(n, t). defineProperties_throws t) chain then Thrown TypeError
        else Returned ())"
    by (rule chain_constructor_fst)
  have h: "history (snd (chain_constructor proto chain cfg ?w))
     = history ?w @ map (\<lambda>(n, t). Construct n cfg) chain
       @ [Construct ''NGNClass'' cfg, Construct ''Class'' (if truthy cfg then cfg else Obj []),
          NewEmitter, DefineProperties ''NGNClass'']
       @ map DefineProperties (own_setups chain)"
    by (rule Cons.IH)
  show ?case
    using f h
    by (cases "chain_constructor proto chain cfg ?w")
       (auto simp: d record_effects_def Let_def split: completion.splits if_splits)
qed

lemma count_list_Construct:
  "count_list (map (\<lambda>(n, t). Construct n cfg) chain) NewEmitter = 0"
  by (induction chain) auto

lemma count_list_DefineProperties:
  "count_list (map DefineProperties ns) NewEmitter = 0"
  by (induction ns) auto

lemma chain_constructor_emitter_once:
  "count_list (history (snd (chain_constructor proto chain cfg w))) NewEmitter
     = count_list (history w) NewEmitter + 1"
  by (simp add: chain_constructor_history count_list_Construct count_list_DefineProperties)

section \<open>Construction\<close>

text \<open>
  The constructor of Login, for every argument: the base constructor has run and the
  emitter exists when \<^verbatim>\<open>Object.defineProperties\<close> rejects the table (three
  descriptors have both \<^verbatim>\<open>value\<close> and \<^verbatim>\<open>get\<close>), so the call throws a
  TypeError and yields no instance. The theorems about accessors and methods below
  are therefore about every object that carries the table's properties, however it came
  to be.
\<close>

theorem Login_constructor_throws:
  "fst (Login_constructor cfg w) = Thrown TypeError"
  by (simp add: Login_constructor_eq)

text \<open>
  C9. For every chain of derived types above NGNClass (the empty chain, NGNClass above
  the root Class, has depth 2), every configuration argument and every process:
  constructing a leaf enters the constructors from the leaf down to the root, each
  once; every derived type and NGNClass receive the leaf's argument, and the root
  receives that argument too when one is supplied and the empty object that NGNClass
  substitutes when it is missing. The own property setups then run from the base to
  the leaf: after the root constructor the event emitter is created, exactly once,
  and NGNClass defines its property, and only then the derived types hand their tables
  to \<^verbatim>\<open>Object.defineProperties\<close>, each before the types derived from it (a table
  that is rejected ends the construction, so no setup of a type above it runs). The
  constructor of Login is the chain with the one derived type Login, and the
  constructor of NGNClass is the empty chain.
\<close>

theorem C9_construction_order:
  "history (snd (chain_constructor proto chain cfg w))
     = history w @ map (\<lambda>(n, t). Construct n cfg) chain
       @ [Construct ''NGNClass'' cfg, Construct ''Class'' (if truthy cfg then cfg else Obj []),
          NewEmitter, DefineProperties ''NGNClass'']
       @ map DefineProperties (own_setups chain)
   \<and> count_list (history (snd (chain_constructor proto chain cfg w))) NewEmitter
     = count_list (history w) NewEmitter + 1
   \<and> snd (Login_constructor cfg w)
     = snd (chain_constructor Login_prototype [(''Login'', Login_descriptors)] cfg w)
   \<and> history (snd (Login_constructor cfg w))
     = history w @
       [Construct ''Login'' cfg, Construct ''NGNClass'' cfg,
        Construct ''Class'' (if truthy cfg then cfg else Obj []),
        NewEmitter, DefineProperties ''NGNClass'', DefineProperties ''Login'']
   \<and> history (snd (NGNClass_constructor proto cfg w))
     = history w @
       [Construct ''NGNClass'' cfg, Construct ''Class'' (if truthy cfg then cfg else Obj []),
        NewEmitter, DefineProperties ''NGNClass'']"
proof -
  have a: "history (snd (chain_constructor proto chain cfg w))
     = history w @ map (\<lambda>(n, t). Construct n cfg) chain
       @ [Construct ''NGNClass'' cfg, Construct ''Class'' (if truthy cfg then cfg else Obj []),
          NewEmitter, DefineProperties ''NGNClass'']
       @ map DefineProperties (own_setups chain)"
    by (rule chain_constructor_history)
  have b: "count_list (history (snd (chain_constructor proto chain cfg w))) NewEmitter
     = count_list (history w) NewEmitter + 1"
    by (rule chain_constructor_emitter_once)
  have c: "snd (Login_constructor cfg w)
     = snd (chain_constructor Login_prototype [(''Login'', Login_descriptors)] cfg w)"
    by (simp add: Login_constructor_eq NGNClass_constructor_eq Login_descriptors_invalid
        record_effects_def)
  have d: "history (snd (Login_constructor cfg w))
     = history w @
       [Construct ''Login'' cfg, Construct ''NGNClass'' cfg,
        Construct ''Class'' (if truthy cfg then cfg else Obj []),
        NewEmitter, DefineProperties ''NGNClass'', DefineProperties ''Login'']"
    by (simp add: Login_constructor_eq or_else_def)
  have e: "history (snd (NGNClass_constructor proto cfg w))
     = history w @
       [Construct ''NGNClass'' cfg, Construct ''Class'' (if truthy cfg then cfg else Obj []),
        NewEmitter, DefineProperties ''NGNClass'']"
    by (simp add: NGNClass_constructor_eq or_else_def)
  show ?thesis
    by (intro conjI a b c d e)
qed

theorem C9_construction_order_witness:
  "history (snd (chain_constructor Login_prototype
       [(''Admin'', [(''level'', data_descriptor)]), (''Login'', Login_descriptors)]
       (Obj [(''request'', Obj [])]) \<lparr>mechanic = False, history = []\<rparr>))
     = [Construct ''Admin'' (Obj [(''request'', Obj [])]),
        Construct ''Login'' (Obj [(''request'', Obj [])]),
        Construct ''NGNClass'' (Obj [(''request'', Obj [])]),
        Construct ''Class'' (Obj [(''request'', Obj [])]),
        NewEmitter, DefineProperties ''NGNClass'', DefineProperties ''Login'']
   \<and> history (snd (chain_constructor NGNClass_prototype
       [(''Leaf'', [(''b'', data_descriptor)]), (''Mid'', [(''a'', data_descriptor)])]
       Undefined \<lparr>mechanic = False, history = []\<rparr>))
     = [Construct ''Leaf'' Undefined, Construct ''Mid'' Undefined,
        Construct ''NGNClass'' Undefined, Construct ''Class'' (Obj []),
        NewEmitter, DefineProperties ''NGNClass'', DefineProperties ''Mid'',
        DefineProperties ''Leaf'']"
proof -
  have t: "defineProperties_throws [(''level'', data_descriptor)] = False"
    "defineProperties_throws [(''a'', data_descriptor)] = False"
    "defineProperties_throws [(''b'', data_descriptor)] = False"
    by (simp_all add: defineProperties_throws_def invalid_descriptor_def data_descriptor_def)
  have s1: "own_setups [(''Admin'', [(''level'', data_descriptor)]), (''Login'', Login_descriptors)]
      = [''Login'']"
    by (simp add: Login_descriptors_invalid)
  have s2: "own_setups [(''Leaf'', [(''b'', data_descriptor)]), (''Mid'', [(''a'', data_descriptor)])]
      = [''Mid'', ''Leaf'']"
    by (simp add: t)
  from C9_construction_order
          [of Login_prototype
              "[(''Admin'', [(''level'', data_descriptor)]), (''Login'', Login_descriptors)]"
              "Obj [(''request'', Obj [])]" "\<lparr>mechanic = False, history = []\<rparr>"]
       C9_construction_order
          [of NGNClass_prototype
              "[(''Leaf'', [(''b'', data_descriptor)]), (''Mid'', [(''a'', data_descriptor)])]"
              Undefined "\<lparr>mechanic = False, history = []\<rparr>"]
  show ?thesis
    by (simp add: s1 s2 del: chain_constructor.simps own_setups.simps)
qed

section \<open>Events of the base class\<close>

text \<open>
  C7, as amended. For every event name and metadata, \<^verbatim>\<open>fireEvent\<close> first performs
  the local emit on the instance's own channel (\<^verbatim>\<open>emit\<close> is called with
  \<^verbatim>\<open>metadata || null\<close> and the listeners of that name are invoked in registration
  order, up to the first that throws). When the local emit returns, the same event name
  and metadata are then sent to the monitor exactly when the process has one. When the
  local emit throws, which it does for the event \<^verbatim>\<open>error\<close> with no listener
  registered for it and whenever a listener throws, \<^verbatim>\<open>fireEvent\<close> throws the same
  and nothing is sent. Everything the local emit does comes before the send, and the
  monitor is neither attached nor detached.
\<close>

theorem C7_fireEvent_emit_then_forward:
  "fst (NGNClass_fireEvent throws this eventName metadata w)
     = fst (NGNClass_emit throws this eventName metadata w)
   \<and> history (snd (NGNClass_fireEvent throws this eventName metadata w))
     = history (snd (NGNClass_emit throws this eventName metadata w))
       @ (if fst (NGNClass_emit throws this eventName metadata w) = Returned () \<and> mechanic w
          then [Send eventName metadata] else [])
   \<and> mechanic (snd (NGNClass_fireEvent throws this eventName metadata w)) = mechanic w
   \<and> fst (NGNClass_emit throws this eventName metadata w)
     = (if eventName = ''error'' \<and> listeners_of (emitter this) eventName = []
        then Thrown UnhandledError
        else if list_ex throws (listeners_of (emitter this) eventName) then Thrown ListenerError
        else Returned ())
   \<and> history (snd (NGNClass_emit throws this eventName metadata w))
     = history w @ Emit eventName (or_else metadata Null)
       # map (\<lambda>cb. Invoke cb (or_else metadata Null))
           (takeWhile (\<lambda>cb. \<not> throws cb) (listeners_of (emitter this) eventName)
            @ take 1 (dropWhile (\<lambda>cb. \<not> throws cb) (listeners_of (emitter this) eventName)))"
proof -
  obtain c w1 where r: "NGNClass_emit throws this eventName metadata w = (c, w1)"
    by (cases "NGNClass_emit throws this eventName metadata w")
  have m: "mechanic w1 = mechanic w"
    using r emitter_emit_snd [of throws "emitter this" eventName "or_else metadata Null" w]
    by (simp add: NGNClass_emit_def)
  have fire: "fst (NGNClass_fireEvent throws this eventName metadata w) = c
    \<and> history (snd (NGNClass_fireEvent throws this eventName metadata w))
       = history w1 @ (if c = Returned () \<and> mechanic w then [Send eventName metadata] else [])
    \<and> mechanic (snd (NGNClass_fireEvent throws this eventName metadata w)) = mechanic w"
    by (cases c) (simp_all add: NGNClass_fireEvent_def r m record_effects_def)
  have c: "c = (if eventName = ''error'' \<and> listeners_of (emitter this) eventName = []
        then Thrown UnhandledError
        else if list_ex throws (listeners_of (emitter this) eventName) then Thrown ListenerError
        else Returned ())"
    using r emitter_emit_fst [of throws "emitter this" eventName "or_else metadata Null" w]
    by (simp add: NGNClass_emit_def)
  have h: "history w1 = history w @ Emit eventName (or_else metadata Null)
       # map (\<lambda>cb. Invoke cb (or_else metadata Null))
           (takeWhile (\<lambda>cb. \<not> throws cb) (listeners_of (emitter this) eventName)
            @ take 1 (dropWhile (\<lambda>cb. \<not> throws cb) (listeners_of (emitter this) eventName)))"
    using r emitter_emit_snd [of throws "emitter this" eventName "or_else metadata Null" w]
    by (simp add: NGNClass_emit_def)
  from fire c h show ?thesis by (simp only: r fst_conv snd_conv)
qed

theorem C7_fireEvent_emit_then_forward_witness:
  "fst (NGNClass_fireEvent (\<lambda>cb. False)
     \<lparr>emitter = \<lparr>listeners = [(''ready'', Method ''onReady''), (''error'', EmptyFn)],
                  maxListeners = 25\<rparr>,
      methods = NGNClass_prototype\<rparr>
     ''ready'' Undefined \<lparr>mechanic = True, history = []\<rparr>) = Returned ()
   \<and> history (snd (NGNClass_fireEvent (\<lambda>cb. False)
     \<lparr>emitter = \<lparr>listeners = [(''ready'', Method ''onReady''), (''error'', EmptyFn)],
                  maxListeners = 25\<rparr>,
      methods = NGNClass_prototype\<rparr>
     ''ready'' Undefined \<lparr>mechanic = True, history = []\<rparr>))
     = [Emit ''ready'' Null, Invoke (Method ''onReady'') Null, Send ''ready'' Undefined]
   \<and> fst (NGNClass_fireEvent (\<lambda>cb. cb = Method ''onReady'')
     \<lparr>emitter = \<lparr>listeners = [(''ready'', Method ''onReady''), (''ready'', EmptyFn)],
                  maxListeners = 25\<rparr>,
      methods = NGNClass_prototype\<rparr>
     ''ready'' Undefined \<lparr>mechanic = True, history = []\<rparr>) = Thrown ListenerError
   \<and> history (snd (NGNClass_fireEvent (\<lambda>cb. cb = Method ''onReady'')
     \<lparr>emitter = \<lparr>listeners = [(''ready'', Method ''onReady''), (''ready'', EmptyFn)],
                  maxListeners = 25\<rparr>,
      methods = NGNClass_prototype\<rparr>
     ''ready'' Undefined \<lparr>mechanic = True, history = []\<rparr>))
     = [Emit ''ready'' Null, Invoke (Method ''onReady'') Null]"
  using C7_fireEvent_emit_then_forward
          [of "\<lambda>cb. False"
              "\<lparr>emitter = \<lparr>listeners = [(''ready'', Method ''onReady''), (''error'', EmptyFn)],
                           maxListeners = 25\<rparr>,
               methods = NGNClass_prototype\<rparr>"
              "''ready''" Undefined "\<lparr>mechanic = True, history = []\<rparr>"]
        C7_fireEvent_emit_then_forward
          [of "\<lambda>cb. cb = Method ''onReady''"
              "\<lparr>emitter = \<lparr>listeners = [(''ready'', Method ''onReady''), (''ready'', EmptyFn)],
                           maxListeners = 25\<rparr>,
               methods = NGNClass_prototype\<rparr>"
              "''ready''" Undefined "\<lparr>mechanic = True, history = []\<rparr>"]
  by (simp add: listeners_of_def or_else_def)

text \<open>
  C7, as stated, fails for the event \<^verbatim>\<open>error\<close> on an instance as the constructor
  leaves it (no listener registered) in a process with a monitor: the local emit
  throws and the event is not sent to the monitor.
\<close>

theorem C7_unheard_error_counterexample:
  "fst (NGNClass_constructor NGNClass_prototype Undefined \<lparr>mechanic = True, history = []\<rparr>)
     = Returned \<lparr>emitter = \<lparr>listeners = [], maxListeners = 25\<rparr>, methods = NGNClass_prototype\<rparr>
   \<and> NGNClass_fireEvent (\<lambda>cb. False)
       \<lparr>emitter = \<lparr>listeners = [], maxListeners = 25\<rparr>, methods = NGNClass_prototype\<rparr>
       ''error'' Undefined \<lparr>mechanic = True, history = []\<rparr>
     = (Thrown UnhandledError, \<lparr>mechanic = True, history = [Emit ''error'' Null]\<rparr>)
   \<and> Send ''error'' Undefined
     \<notin> set (history (snd (NGNClass_fireEvent (\<lambda>cb. False)
         \<lparr>emitter = \<lparr>listeners = [], maxListeners = 25\<rparr>, methods = NGNClass_prototype\<rparr>
         ''error'' Undefined \<lparr>mechanic = True, history = []\<rparr>)))"
  by (simp add: NGNClass_constructor_eq NGNClass_fireEvent_def NGNClass_emit_def emitter_emit_def
      listeners_of_def record_effects_def or_else_def)

text \<open>
  C8, as amended. For every list of event names, \<^verbatim>\<open>addEventListeners\<close> appends
  one registration per name, in order, under the trimmed and lowercased name: bound to
  the instance's method named \<^verbatim>\<open>on\<close> followed by the trimmed name when the
  instance has such a method, and to the no-op handler \<^verbatim>\<open>NGN.emptyFn\<close> when it
  has not. It raises no error and changes nothing else.
\<close>

theorem C8_addEventListeners_registers:
  "listeners (emitter (NGNClass_addEventListeners this evt))
     = listeners (emitter this)
       @ map (\<lambda>e. (toLowerCase (trim e),
                    if ''on'' @ trim e \<in> set (methods this)
                    then Method (''on'' @ trim e) else EmptyFn)) evt
   \<and> methods (NGNClass_addEventListeners this evt) = methods this
   \<and> maxListeners (emitter (NGNClass_addEventListeners this evt)) = maxListeners (emitter this)"
proof (induction evt arbitrary: this)
  case Nil
  show ?case by simp
next
  case (Cons e evt)
  have "maxListeners (emitter (NGNClass_on this (toLowerCase (trim e))
          (lookup_member this (''on'' @ trim e)))) = maxListeners (emitter this)"
    by (simp add: NGNClass_on_def emitter_on_def)
  then show ?case
    by (simp add: Cons.IH listeners_on methods_on) (simp add: lookup_member_def)
qed

theorem C8_addEventListeners_registers_witness:
  "listeners (emitter (NGNClass_addEventListeners
       \<lparr>emitter = \<lparr>listeners = [], maxListeners = 25\<rparr>, methods = NGNClass_prototype\<rparr>
       [''  Error '', ''Ready'']))
     = [(''error'', Method ''onError''), (''ready'', EmptyFn)]"
  using C8_addEventListeners_registers
          [of "\<lparr>emitter = \<lparr>listeners = [], maxListeners = 25\<rparr>, methods = NGNClass_prototype\<rparr>"
              "[''  Error '', ''Ready'']"]
  by (simp add: NGNClass_prototype_def toLowerCase_def trim_def is_space_def lower_char_def)

text \<open>
  C8, as stated, fails where the handler method is missing: the instance has no
  \<^verbatim>\<open>onReady\<close>, and \<^verbatim>\<open>addEventListeners(['Ready'])\<close> still registers a
  listener for \<^verbatim>\<open>ready\<close>.
\<close>

theorem C8_missing_handler_counterexample:
  "''onReady'' \<notin> set (methods \<lparr>emitter = new_EventEmitter, methods = NGNClass_prototype\<rparr>)
   \<and> listeners (emitter (NGNClass_addEventListeners
        \<lparr>emitter = new_EventEmitter, methods = NGNClass_prototype\<rparr> [''Ready'']))
     = [(''ready'', EmptyFn)]
   \<and> listeners (emitter (NGNClass_addEventListeners
        \<lparr>emitter = new_EventEmitter, methods = NGNClass_prototype\<rparr> [''Ready'']))
     \<noteq> listeners (emitter \<lparr>emitter = new_EventEmitter, methods = NGNClass_prototype\<rparr>)"
  by (simp add: NGNClass_prototype_def new_EventEmitter_def NGNClass_on_def emitter_on_def
      lookup_member_def toLowerCase_def trim_def is_space_def lower_char_def)

section \<open>Accessors of the login\<close>

text \<open>
  C1, evaluated. The configuration \<^verbatim>\<open>{identityId: '12345'}\<close> has no request. On
  an object with the table's properties for it, reading \<^verbatim>\<open>oauthprovider\<close> throws
  a TypeError (\<^verbatim>\<open>this.request\<close> is \<^verbatim>\<open>undefined\<close>) where the claim has an
  InvalidAttribute event and an unset result, and \<^verbatim>\<open>ID\<close> reads \<^verbatim>\<open>null\<close>
  where the claim has \<^verbatim>\<open>'12345'\<close>; the constructor called with it throws.
\<close>

theorem C1_no_payload_provider_read:
  "get_member (Obj [(''identityId'', Str ''12345'')]) ''request'' = Returned Undefined
   \<and> oauthprovider_get (Login_properties Undefined base) = Thrown TypeError
   \<and> ID_get (Login_properties Undefined base) = Null
   \<and> fst (Login_constructor (Obj [(''identityId'', Str ''12345'')]) w) = Thrown TypeError"
  by (simp add: oauthprovider_no_request expando_Login_properties Login_constructor_eq ID_get_def)
     (simp add: Login_properties_def)

text \<open>
  C2, evaluated. \<^verbatim>\<open>processHttpRequest\<close> on the payload whose user is
  \<^verbatim>\<open>{facebook: {}, id: 'u1', accessToken: 'tok'}\<close> returns; it caches the user and
  the token (under \<^verbatim>\<open>_accesstoken\<close>) but the assignment to \<^verbatim>\<open>ID\<close> is ignored
  and \<^verbatim>\<open>ID\<close> still reads \<^verbatim>\<open>null\<close>. Afterwards the getters
  \<^verbatim>\<open>oauthprovider\<close>, \<^verbatim>\<open>oauth\<close> and \<^verbatim>\<open>accesstoken\<close> each throw a TypeError,
  where the claim has \<^verbatim>\<open>'facebook'\<close>, \<^verbatim>\<open>'fb'\<close> and \<^verbatim>\<open>'tok'\<close>; the stored
  function that would derive \<^verbatim>\<open>'facebook'\<close> is never called.
\<close>

theorem C2_extract_then_read:
  "(case Login_processHttpRequest (Login_properties r base)
           (Obj [(''user'', Obj [(''facebook'', Obj []), (''id'', Str ''u1''),
                                 (''accessToken'', Str ''tok'')])]) of
      Thrown e \<Rightarrow> False
    | Returned this \<Rightarrow>
        p_data this = Obj [(''facebook'', Obj []), (''id'', Str ''u1''), (''accessToken'', Str ''tok'')]
        \<and> p_accesstoken this = Str ''tok''
        \<and> ID_get this = Null
        \<and> oauthprovider_get this = Thrown TypeError
        \<and> oauth_get this = Thrown TypeError
        \<and> accesstoken_get this w = (Thrown TypeError, w))
   \<and> oauthprovider_closure_call
        (Obj [(''user'', Obj [(''facebook'', Obj []), (''id'', Str ''u1''),
                              (''accessToken'', Str ''tok'')])])
     = Returned (Str ''facebook'')"
  apply (simp add: Login_processHttpRequest_def ID_assign_def)
  apply (simp add: oauthprovider_get_def oauth_get_def accesstoken_get_def own_get_def
      ID_get_def Login_properties_def oauthprovider_closure_call_def)
  apply (simp add: toLowerCase_def trim_def is_space_def lower_char_def)
  done

text \<open>
  C3, evaluated. On an object with the table's properties and no provider (nothing
  attached as \<^verbatim>\<open>request\<close>), reading \<^verbatim>\<open>oauth\<close> throws a TypeError, where the
  claim has the no-code result without a throw.
\<close>

theorem C3_code_read_without_provider:
  "oauth_get (Login_properties r base) = Thrown TypeError"
  by (simp add: oauth_get_def oauthprovider_no_request expando_Login_properties)

text \<open>
  Whenever the read of \<^verbatim>\<open>oauthprovider\<close> returns, \<^verbatim>\<open>oauth\<close> returns the code
  the specification's table gives that value.
\<close>

theorem oauth_get_provider_table:
  "oauthprovider_get this = Returned p \<Longrightarrow> oauth_get this = Returned (provider_code p)"
  by (cases p) (simp_all add: oauth_get_def provider_code_def provider_codes_def)

theorem oauth_get_provider_table_witness:
  "oauthprovider_get
     ((Login_properties Undefined base)
        \<lparr>expando := [''request'' \<mapsto> Obj [(''user'', Obj [(''type'', Str '' GitHub  '')])]]\<rparr>)
     = Returned (Str ''github'')
   \<and> oauth_get
       ((Login_properties Undefined base)
          \<lparr>expando := [''request'' \<mapsto> Obj [(''user'', Obj [(''type'', Str '' GitHub  '')])]]\<rparr>)
     = Returned (Str ''gh'')"
proof -
  let ?this = "(Login_properties Undefined base)
        \<lparr>expando := [''request'' \<mapsto> Obj [(''user'', Obj [(''type'', Str '' GitHub  '')])]]\<rparr>"
  have p: "oauthprovider_get ?this = Returned (Str ''github'')"
    by (simp add: oauthprovider_get_def own_get_def trim_lower_GitHub)
  have "provider_code (Str ''github'') = Str ''gh''"
    by (simp add: provider_code_def provider_codes_def)
  with oauth_get_provider_table [OF p] p show ?thesis by simp
qed

text \<open>
  C4, evaluated. The provider resolves to \<^verbatim>\<open>'email'\<close> and a token is cached:
  reading \<^verbatim>\<open>accesstoken\<close> throws a TypeError (\<^verbatim>\<open>this.bus\<close> is
  \<^verbatim>\<open>undefined\<close>) and publishes nothing, where the claim has the absent value and a
  warn event.
\<close>

theorem C4_email_token_read:
  "oauthprovider_get
     ((Login_properties r base)
        \<lparr>expando := [''request'' \<mapsto> Obj [(''user'', Obj [(''type'', Str ''email'')])],
                     ''_accessToken'' \<mapsto> Str ''tok'']\<rparr>)
     = Returned (Str ''email'')
   \<and> accesstoken_get
       ((Login_properties r base)
          \<lparr>expando := [''request'' \<mapsto> Obj [(''user'', Obj [(''type'', Str ''email'')])],
                       ''_accessToken'' \<mapsto> Str ''tok'']\<rparr>) w
     = (Thrown TypeError, w)"
proof -
  let ?this = "(Login_properties r base)
        \<lparr>expando := [''request'' \<mapsto> Obj [(''user'', Obj [(''type'', Str ''email'')])],
                     ''_accessToken'' \<mapsto> Str ''tok'']\<rparr>"
  have p: "oauthprovider_get ?this = Returned (Str ''email'')"
    by (simp add: oauthprovider_get_def own_get_def toLowerCase_def trim_def is_space_def
        lower_char_def)
  from p accesstoken_get_email [OF p] show ?thesis by simp
qed

text \<open>
  C5, evaluated. With no request in the configuration, \<^verbatim>\<open>_request\<close> is the empty
  object, which is truthy: \<^verbatim>\<open>authenticate()\<close> returns without publishing
  anything, where the claim has an error event. For every instance, argument and
  process, \<^verbatim>\<open>authenticate\<close> leaves the instance and the process as they were;
  where the guard does fire (no argument and no \<^verbatim>\<open>_request\<close>), the call throws a
  TypeError at \<^verbatim>\<open>this.bus\<close>.
\<close>

theorem C5_authenticate_without_payload:
  "Login_authenticate (Login_properties Undefined base) Undefined w
     = (Returned Undefined, Login_properties Undefined base, w)
   \<and> snd (Login_authenticate this req w') = (this, w')
   \<and> fst (Login_authenticate (this\<lparr>p_request := Undefined\<rparr>) Undefined w') = Thrown TypeError"
  by (simp add: Login_authenticate_def bus_emit_throws Let_def)
     (simp add: Login_properties_def or_else_def)

text \<open>
  C6, as amended. Every assignment to \<^verbatim>\<open>modified\<close>, whatever the value, calls
  \<^verbatim>\<open>emit\<close> on the instance's channel with the event \<^verbatim>\<open>error\<close> and the payload
  of type InvalidSet, and leaves the instance, its modified flag included, as it was.
  The payload is delivered to the listeners of \<^verbatim>\<open>error\<close> in registration order, and
  the assignment returns when there is such a listener and none of them throws; with no
  listener of \<^verbatim>\<open>error\<close> registered the emit throws, and the assignment with it.
  The accessor is not the only way to the flag: \<^verbatim>\<open>_modified\<close> is a writable data
  property, and an assignment to it stores the value.
\<close>

theorem C6_modified_set_rejected:
  "fst (modified_set throws this v w)
     = (if listeners_of (emitter this) ''error'' = [] then Thrown UnhandledError
        else if list_ex throws (listeners_of (emitter this) ''error'') then Thrown ListenerError
        else Returned ())
   \<and> fst (snd (modified_set throws this v w)) = this
   \<and> modified_get (fst (snd (modified_set throws this v w))) = modified_get this
   \<and> history (snd (snd (modified_set throws this v w)))
     = history w @ Emit ''error'' InvalidSet
       # map (\<lambda>cb. Invoke cb InvalidSet)
           (takeWhile (\<lambda>cb. \<not> throws cb) (listeners_of (emitter this) ''error'')
            @ take 1 (dropWhile (\<lambda>cb. \<not> throws cb) (listeners_of (emitter this) ''error'')))
   \<and> get_member InvalidSet ''type'' = Returned (Str ''InvalidSet'')
   \<and> modified_get (p_modified_assign this x) = x"
proof -
  have p: "or_else InvalidSet Null = InvalidSet"
    by (simp add: or_else_def InvalidSet_def)
  obtain c w1 where r: "emitter_emit throws (emitter this) ''error'' InvalidSet w = (c, w1)"
    by (cases "emitter_emit throws (emitter this) ''error'' InvalidSet w")
  have c: "c = (if listeners_of (emitter this) ''error'' = [] then Thrown UnhandledError
        else if list_ex throws (listeners_of (emitter this) ''error'') then Thrown ListenerError
        else Returned ())"
    using r emitter_emit_fst [of throws "emitter this" "''error''" InvalidSet w] by simp
  have h: "history w1 = history w @ Emit ''error'' InvalidSet
       # map (\<lambda>cb. Invoke cb InvalidSet)
           (takeWhile (\<lambda>cb. \<not> throws cb) (listeners_of (emitter this) ''error'')
            @ take 1 (dropWhile (\<lambda>cb. \<not> throws cb) (listeners_of (emitter this) ''error'')))"
    using r emitter_emit_snd [of throws "emitter this" "''error''" InvalidSet w] by simp
  have s: "modified_set throws this v w = (c, this, w1)"
    by (simp add: modified_set_def NGNClass_emit_def p r)
  have t: "get_member InvalidSet ''type'' = Returned (Str ''InvalidSet'')"
    by (simp add: InvalidSet_def)
  show ?thesis
    by (simp add: s c h t modified_get_def p_modified_assign_def)
qed

theorem C6_modified_set_rejected_witness:
  "fst (modified_set (\<lambda>cb. False)
          ((Login_properties Undefined
              \<lparr>emitter = \<lparr>listeners = [(''error'', EmptyFn)], maxListeners = 25\<rparr>,
               methods = Login_prototype\<rparr>))
          (Bool True) \<lparr>mechanic = False, history = []\<rparr>)
     = Returned ()
   \<and> history (snd (snd (modified_set (\<lambda>cb. False)
          ((Login_properties Undefined
              \<lparr>emitter = \<lparr>listeners = [(''error'', EmptyFn)], maxListeners = 25\<rparr>,
               methods = Login_prototype\<rparr>))
          (Bool True) \<lparr>mechanic = False, history = []\<rparr>)))
     = [Emit ''error'' InvalidSet, Invoke EmptyFn InvalidSet]
   \<and> modified_get (fst (snd (modified_set (\<lambda>cb. False)
          ((Login_properties Undefined
              \<lparr>emitter = \<lparr>listeners = [(''error'', EmptyFn)], maxListeners = 25\<rparr>,
               methods = Login_prototype\<rparr>))
          (Bool True) \<lparr>mechanic = False, history = []\<rparr>)))
     = Bool False"
  using C6_modified_set_rejected
          [of "\<lambda>cb. False"
              "Login_properties Undefined
                 \<lparr>emitter = \<lparr>listeners = [(''error'', EmptyFn)], maxListeners = 25\<rparr>,
                  methods = Login_prototype\<rparr>"
              "Bool True" "\<lparr>mechanic = False, history = []\<rparr>"]
  by (simp add: listeners_of_def Login_properties_def modified_get_def)

text \<open>
  C6, as stated, fails on an instance as the constructor leaves it (no listener
  registered): the assignment to \<^verbatim>\<open>modified\<close> throws and no listener receives an
  event. And the flag, which reads \<^verbatim>\<open>false\<close>, becomes \<^verbatim>\<open>true\<close> by an
  assignment to \<^verbatim>\<open>_modified\<close>, with no internal logic involved.
\<close>

theorem C6_unheard_error_counterexample:
  "modified_set (\<lambda>cb. False)
     (Login_properties Undefined
        \<lparr>emitter = \<lparr>listeners = [], maxListeners = 25\<rparr>, methods = Login_prototype\<rparr>)
     (Bool True) \<lparr>mechanic = False, history = []\<rparr>
     = (Thrown UnhandledError,
        Login_properties Undefined
          \<lparr>emitter = \<lparr>listeners = [], maxListeners = 25\<rparr>, methods = Login_prototype\<rparr>,
        \<lparr>mechanic = False, history = [Emit ''error'' InvalidSet]\<rparr>)
   \<and> modified_get (Login_properties Undefined
        \<lparr>emitter = \<lparr>listeners = [], maxListeners = 25\<rparr>, methods = Login_prototype\<rparr>)
     = Bool False
   \<and> modified_get (p_modified_assign
        (Login_properties Undefined
           \<lparr>emitter = \<lparr>listeners = [], maxListeners = 25\<rparr>, methods = Login_prototype\<rparr>)
        (Bool True))
     = Bool True"
  by (simp add: modified_set_def NGNClass_emit_def emitter_emit_def listeners_of_def
      record_effects_def or_else_def InvalidSet_def modified_get_def p_modified_assign_def
      Login_properties_def)

text \<open>
  C10. On an instance whose provider read returns a name other than \<^verbatim>\<open>'email'\<close>
  (every known provider but email is one), assigning a non-empty string to
  \<^verbatim>\<open>accesstoken\<close> and then reading \<^verbatim>\<open>accesstoken\<close> returns that string and
  publishes nothing; the setter stores the value whatever was cached before.
\<close>

theorem C10_accesstoken_set_get:
  assumes "oauthprovider_get this = Returned (Str p)" and "p \<noteq> ''email''" and "v \<noteq> []"
  shows "accesstoken_get (accesstoken_set this (Str v)) w = (Returned (Str v), w)
         \<and> own_get (accesstoken_set this (Str v)) ''_accessToken'' = Str v"
proof -
  have "oauthprovider_get (accesstoken_set this (Str v)) = Returned (Str p)"
    using assms(1) by (simp add: oauthprovider_get_accesstoken_set)
  moreover have "own_get (accesstoken_set this (Str v)) ''_accessToken'' = Str v"
    by (simp add: own_get_def accesstoken_set_def)
  ultimately show ?thesis
    using assms(2,3) by (simp add: accesstoken_get_other or_else_def)
qed

theorem C10_accesstoken_set_get_witness:
  "accesstoken_get
     (accesstoken_set
        ((Login_properties Undefined \<lparr>emitter = new_EventEmitter, methods = Login_prototype\<rparr>)
           \<lparr>expando := [''request'' \<mapsto> Obj [(''user'', Obj [(''type'', Str '' GitHub  '')])],
                        ''_accessToken'' \<mapsto> Str ''old'']\<rparr>)
        (Str ''tok''))
     \<lparr>mechanic = False, history = []\<rparr>
     = (Returned (Str ''tok''), \<lparr>mechanic = False, history = []\<rparr>)
   \<and> own_get
       (accesstoken_set
          ((Login_properties Undefined \<lparr>emitter = new_EventEmitter, methods = Login_prototype\<rparr>)
             \<lparr>expando := [''request'' \<mapsto> Obj [(''user'', Obj [(''type'', Str '' GitHub  '')])],
                          ''_accessToken'' \<mapsto> Str ''old'']\<rparr>)
          (Str ''tok''))
       ''_accessToken''
     = Str ''tok''"
proof (rule C10_accesstoken_set_get)
  show "oauthprovider_get
     ((Login_properties Undefined \<lparr>emitter = new_EventEmitter, methods = Login_prototype\<rparr>)
        \<lparr>expando := [''request'' \<mapsto> Obj [(''user'', Obj [(''type'', Str '' GitHub  '')])],
                     ''_accessToken'' \<mapsto> Str ''old'']\<rparr>)
     = Returned (Str ''github'')"
    by (simp add: oauthprovider_get_def own_get_def trim_lower_GitHub)
  show "''github'' \<noteq> ''email''" by simp
  show "''tok'' \<noteq> []" by simp
qed

end
